theory Spec2Isabelle
  imports Main "HOL-Library.AList"
begin

section \<open>Strings\<close>

text \<open>
  A Python \<open>str\<close> is a sequence of Unicode code points, so a string is a list of
  natural numbers, one per code point. ASCII text is written \<open>ascii ''...''\<close>; the
  Chinese text of the sources is written as its code points, with a gloss next to it.
\<close>

type_synonym pystr = "nat list"

definition ascii :: "string \<Rightarrow> pystr" where
  "ascii s = map of_char s"

text \<open>The code points for which \<open>str.isspace\<close> holds; \<open>str.split()\<close> and
  \<open>str.strip()\<close> cut at exactly these.\<close>

definition isspace :: "nat \<Rightarrow> bool" where
  "isspace c =
     ((0x9 \<le> c \<and> c \<le> 0xD) \<or> (0x1C \<le> c \<and> c \<le> 0x20) \<or> c = 0x85 \<or> c = 0xA0
      \<or> c = 0x1680 \<or> (0x2000 \<le> c \<and> c \<le> 0x200A) \<or> c = 0x2028 \<or> c = 0x2029
      \<or> c = 0x202F \<or> c = 0x205F \<or> c = 0x3000)"

text \<open>\<open>s.split()\<close>: the maximal runs of non-space code points, in order.\<close>

fun split_from :: "pystr \<Rightarrow> pystr \<Rightarrow> pystr list" where
  "split_from cur [] = (if cur = [] then [] else [cur])"
| "split_from cur (c # cs) =
     (if isspace c then (if cur = [] then split_from [] cs else cur # split_from [] cs)
      else split_from (cur @ [c]) cs)"

definition str_split :: "pystr \<Rightarrow> pystr list" where
  "str_split s = split_from [] s"

text \<open>\<open>s.startswith(p)\<close> and \<open>sub in s\<close>.\<close>

definition startswith :: "pystr \<Rightarrow> pystr \<Rightarrow> bool" where
  "startswith s p = (take (length p) s = p)"

fun str_in :: "pystr \<Rightarrow> pystr \<Rightarrow> bool" where
  "str_in sub [] = (sub = [])"
| "str_in sub (c # cs) = (startswith (c # cs) sub \<or> str_in sub cs)"

text \<open>\<open>sep.join(xs)\<close>.\<close>

fun join :: "pystr \<Rightarrow> pystr list \<Rightarrow> pystr" where
  "join sep [] = []"
| "join sep [x] = x"
| "join sep (x # y # ys) = x @ sep @ join sep (y # ys)"

text \<open>\<open>str(n)\<close> for an integer: decimal digits, with a minus sign when negative.\<close>

fun str_nat :: "nat \<Rightarrow> pystr" where
  "str_nat n = (if n < 10 then [48 + n] else str_nat (n div 10) @ [48 + n mod 10])"

declare str_nat.simps [simp del]

definition str_int :: "int \<Rightarrow> pystr" where
  "str_int i = (if i < 0 then 0x2D # str_nat (nat (- i)) else str_nat (nat i))"

section \<open>Configuration\<close>

text \<open>
  The configuration document as \<open>yaml.safe_load\<close> returns it, for documents of the shape
  the data model describes. A key that may be missing is an \<open>option\<close>; a mapping is an
  association list, in the order of the document, as a Python \<open>dict\<close> keeps it.
  Environment values are scalars, rendered by \<open>str(value)\<close>.
\<close>

datatype yval = YStr pystr | YInt int | YBool bool | YNull

fun str_yval :: "yval \<Rightarrow> pystr" where
  "str_yval (YStr s) = s"
| "str_yval (YInt i) = str_int i"
| "str_yval (YBool b) = (if b then ascii ''True'' else ascii ''False'')"
| "str_yval YNull = ascii ''None''"

record task =
  t_name :: "pystr option"
  t_schedule :: "pystr option"
  t_script :: "pystr option"
  t_enabled :: "bool option"
  t_description :: "pystr option"
  t_env :: "(pystr \<times> yval) list option"

record config =
  c_tasks :: "task list option"
  c_global_env :: "(pystr \<times> yval) list option"

text \<open>\<open>d.get(key, default)\<close>.\<close>

definition get_or :: "'a option \<Rightarrow> 'a \<Rightarrow> 'a" where
  "get_or v d = (case v of None \<Rightarrow> d | Some x \<Rightarrow> x)"

section \<open>manage.py: schedule descriptions and the list command\<close>

text \<open>The weekday names: Sunday, Monday, ..., Saturday, Sunday.\<close>

definition weekdays :: "(pystr \<times> pystr) list" where
  "weekdays =
     [(ascii ''0'', [0x5468, 0x65E5]), (ascii ''1'', [0x5468, 0x4E00]),
      (ascii ''2'', [0x5468, 0x4E8C]), (ascii ''3'', [0x5468, 0x4E09]),
      (ascii ''4'', [0x5468, 0x56DB]), (ascii ''5'', [0x5468, 0x4E94]),
      (ascii ''6'', [0x5468, 0x516D]), (ascii ''7'', [0x5468, 0x65E5])]"

text \<open>
  \<open>parse_cron\<close>. The glosses: \<open>[0x6BCF]\<close> is "every", \<open>[0x5206, 0x949F]\<close> "minute(s)",
  \<open>[0x5206]\<close> the minute mark, \<open>[0x5C0F, 0x65F6]\<close> "hour(s)", \<open>[0x65F6]\<close> the hour mark,
  \<open>[0x65E5, 0x671F]\<close> "date".
\<close>

definition minute_desc :: "pystr \<Rightarrow> pystr" where
  "minute_desc minute =
     (if minute = ascii ''*'' then [0x6BCF, 0x5206, 0x949F]
      else if startswith minute (ascii ''*/'') then [0x6BCF] @ drop 2 minute @ [0x5206, 0x949F]
      else minute @ [0x5206])"

definition hour_desc :: "pystr list \<Rightarrow> pystr \<Rightarrow> pystr list" where
  "hour_desc desc hour =
     (if hour = ascii ''*'' then
        (if str_in [0x6BCF] (hd desc) then desc @ [[0x6BCF, 0x5C0F, 0x65F6]] else desc)
      else if startswith hour (ascii ''*/'') then desc @ [[0x6BCF] @ drop 2 hour @ [0x5C0F, 0x65F6]]
      else desc @ [hour @ [0x65F6]])"

definition date_desc :: "pystr \<Rightarrow> pystr list \<Rightarrow> pystr \<Rightarrow> pystr \<Rightarrow> pystr \<Rightarrow> pystr list" where
  "date_desc cron_expr desc day month weekday =
     (if day \<noteq> ascii ''*'' \<or> month \<noteq> ascii ''*'' \<or> weekday \<noteq> ascii ''*'' then
        (if day = ascii ''*'' \<and> month = ascii ''*'' \<and> weekday = ascii ''*'' then desc
         else if weekday \<noteq> ascii ''*'' then
           (case map_of weekdays weekday of
              Some w \<Rightarrow> desc @ [[0x6BCF] @ w]
            | None \<Rightarrow> desc)
         else desc @ [[0x65E5, 0x671F] @ ascii '': '' @ cron_expr])
      else desc)"

definition parse_cron :: "pystr \<Rightarrow> pystr" where
  "parse_cron cron_expr =
     (case str_split cron_expr of
        [minute, hour, day, month, weekday] \<Rightarrow>
          (let desc = date_desc cron_expr (hour_desc [minute_desc minute] hour) day month weekday
           in if length desc \<le> 3 then join (ascii '' '') desc else cron_expr)
      | _ \<Rightarrow> cron_expr)"

text \<open>
  What the command prints: \<open>print_info\<close> and \<open>print_error\<close> add a colour and the time of
  day to their message, so a printed line records which of them printed it; \<open>Plain\<close> is
  a bare \<open>print\<close>.
\<close>

datatype out = Info pystr | Err pystr | Plain pystr

text \<open>
  The loop body of \<open>cmd_list\<close> for the \<open>i\<close>-th task. \<open>croniter_available\<close> says whether the
  cron evaluator could be imported, and \<open>next_run\<close> is what it answers for a schedule,
  already formatted (\<open>None\<close> when it raises).
\<close>

definition list_task :: "bool \<Rightarrow> (pystr \<Rightarrow> pystr option) \<Rightarrow> nat \<Rightarrow> task \<Rightarrow> out list" where
  "list_task croniter_available next_run i t =
     (let name = get_or (t_name t) [0x672A, 0x547D, 0x540D];
          schedule = get_or (t_schedule t) [0x65E0, 0x8C03, 0x5EA6];
          script = get_or (t_script t) [0x65E0, 0x811A, 0x672C];
          enabled = get_or (t_enabled t) True;
          description = get_or (t_description t) [];
          status_icon = (if enabled then ascii ''['' @ [0x542F, 0x7528] @ ascii '']''
                         else ascii ''['' @ [0x7981, 0x7528] @ ascii '']'');
          readable = parse_cron schedule
      in [Plain ([0xA] @ str_nat i @ ascii ''. '' @ status_icon @ ascii '' '' @ name),
          Plain (ascii ''   '' @ [0x8C03, 0x5EA6] @ ascii '': '' @ schedule)]
         @ (if readable \<noteq> schedule
            then [Plain (ascii ''   '' @ [0x8BF4, 0x660E] @ ascii '': '' @ readable)] else [])
         @ (if enabled \<and> croniter_available then
              (case next_run schedule of
                 Some when \<Rightarrow> [Plain (ascii ''   '' @ [0x4E0B, 0x6B21] @ ascii '': '' @ when)]
               | None \<Rightarrow> [])
            else [])
         @ [Plain (ascii ''   '' @ [0x811A, 0x672C] @ ascii '': '' @ script)]
         @ (if description \<noteq> []
            then [Plain (ascii ''   '' @ [0x63CF, 0x8FF0] @ ascii '': '' @ description)] else []))"

text \<open>\<open>enumerate(tasks, 1)\<close>.\<close>

definition enumerate1 :: "'a list \<Rightarrow> (nat \<times> 'a) list" where
  "enumerate1 xs = zip [1 ..< Suc (length xs)] xs"

text \<open>
  \<open>cmd_list\<close>: the lines printed and the return code. The first argument is what
  \<open>load_config\<close> returned. The glosses of the fixed lines: "scheduled task list:",
  "config.yml not found", "no tasks configured", "total tasks:", "summary: n enabled,
  m disabled", and the hint to install croniter.
\<close>

definition cmd_list :: "config option \<Rightarrow> bool \<Rightarrow> (pystr \<Rightarrow> pystr option) \<Rightarrow> out list \<times> int" where
  "cmd_list loaded croniter_available next_run =
     (let banner = Info ([0x5B9A, 0x65F6, 0x4EFB, 0x52A1, 0x8BA1, 0x5212, 0x5217, 0x8868] @ ascii '':'')
      in case loaded of
        None \<Rightarrow>
          ([banner, Err ([0x672A, 0x627E, 0x5230] @ ascii '' config.yml '' @ [0x6587, 0x4EF6])], 1)
      | Some cfg \<Rightarrow>
          (let tasks = get_or (c_tasks cfg) []
           in if tasks = [] then
                ([banner, Plain [0x672A, 0x914D, 0x7F6E, 0x4EFB, 0x4F55, 0x4EFB, 0x52A1]], 0)
              else
                (let enabled_count = length (filter (\<lambda>t. get_or (t_enabled t) True) tasks);
                     disabled_count = length tasks - enabled_count
                 in ([banner,
                      Plain ([0xA, 0x4EFB, 0x52A1, 0x603B, 0x6570] @ ascii '': ''
                             @ str_nat (length tasks) @ [0xA]),
                      Plain (replicate 80 0x2D)]
                     @ concat (map (\<lambda>(i, t). list_task croniter_available next_run i t)
                                   (enumerate1 tasks))
                     @ [Plain ([0xA] @ replicate 80 0x2D),
                        Plain ([0xA, 0x7EDF, 0x8BA1] @ ascii '': '' @ str_nat enabled_count
                               @ ascii '' '' @ [0x4E2A, 0x542F, 0x7528] @ ascii '', ''
                               @ str_nat disabled_count @ ascii '' '' @ [0x4E2A, 0x7981, 0x7528])]
                     @ (if \<not> croniter_available then
                          [Plain ([0xA, 0x63D0, 0x793A] @ ascii '': '' @ [0x5B89, 0x88C5]
                                  @ ascii '' croniter (pip install croniter) ''
                                  @ [0x53EF, 0x663E, 0x793A, 0x4E0B, 0x6B21, 0x6267, 0x884C,
                                     0x65F6, 0x95F4])]
                        else []),
                     0))))"

section \<open>Files, logs and the loaded configuration\<close>

text \<open>
  A file is \<open>None\<close> while it does not exist and \<open>Some\<close> of its text otherwise. A log
  entry is the level that \<open>logger.log\<close> prints and its message (\<open>log_success\<close> logs at
  the level of \<open>log_info\<close>). \<open>loaded\<close> is the outcome of opening and parsing the
  configuration file: the two exceptions that the generators catch, or the document.
\<close>

type_synonym textfile = "pystr option"

datatype level = L_INF | L_ERR | L_WAR | L_DBG

type_synonym log = "level \<times> pystr"

datatype loaded = NotFound | YamlError pystr | Loaded config

section \<open>make\_env.py\<close>

text \<open>\<open>s.replace('"', '\\"')\<close>: a backslash before every double quote.\<close>

definition escape_quotes :: "pystr \<Rightarrow> pystr" where
  "escape_quotes s = concat (map (\<lambda>c. if c = 0x22 then [0x5C, 0x22] else [c]) s)"

text \<open>The line \<open>export key="value"\<close>, with its newline.\<close>

definition export_line :: "pystr \<Rightarrow> yval \<Rightarrow> pystr" where
  "export_line key val =
     ascii ''export '' @ key @ [0x3D, 0x22] @ escape_quotes (str_yval val) @ [0x22, 0xA]"

text \<open>
  What the loop over the tasks writes for one task: nothing for a task without a name,
  else a comment with the name and "enabled" or "disabled", the task's variables under
  the key \<open>name_KEY\<close>, and an empty line.
\<close>

definition env_task :: "task \<Rightarrow> pystr" where
  "env_task t =
     (let task_name = get_or (t_name t) []
      in if task_name = [] then []
         else
           (let is_enabled = get_or (t_enabled t) True;
                status = (if is_enabled then [0x542F, 0x7528] else [0x7981, 0x7528])
            in ascii ''# '' @ [0x4EFB, 0x52A1] @ ascii '': '' @ task_name @ ascii '' ('' @ status
               @ ascii '')'' @ [0xA]
               @ (case t_env t of
                    None \<Rightarrow> []
                  | Some e \<Rightarrow>
                      concat (map (\<lambda>(key, val). export_line (task_name @ ascii ''_'' @ key) val) e))
               @ [0xA]))"

text \<open>
  The text written to the env file; \<open>now\<close> is the current time as \<open>strftime\<close> formats
  it. The comment lines say: "generated environment file", "generated at:", "do not edit
  this file by hand", "global environment variables", "per-task environment variables".
\<close>

definition env_text :: "config \<Rightarrow> pystr \<Rightarrow> pystr" where
  "env_text cfg now =
     ascii ''# '' @ [0x81EA, 0x52A8, 0x751F, 0x6210, 0x7684, 0x73AF, 0x5883, 0x53D8, 0x91CF,
                     0x6587, 0x4EF6, 0xA]
     @ ascii ''# '' @ [0x751F, 0x6210, 0x65F6, 0x95F4] @ ascii '': '' @ now @ [0xA]
     @ ascii ''# '' @ [0x4E0D, 0x8981, 0x624B, 0x52A8, 0x7F16, 0x8F91, 0x6B64, 0x6587, 0x4EF6,
                       0xA, 0xA]
     @ (case c_global_env cfg of
          None \<Rightarrow> []
        | Some g \<Rightarrow>
            ascii ''# '' @ [0x5168, 0x5C40, 0x73AF, 0x5883, 0x53D8, 0x91CF, 0xA]
            @ concat (map (\<lambda>(key, val). export_line key val) g) @ [0xA])
     @ (if get_or (c_tasks cfg) [] \<noteq> [] then
          ascii ''# '' @ [0x4EFB, 0x52A1, 0x4E13, 0x5C5E, 0x73AF, 0x5883, 0x53D8, 0x91CF, 0xA]
          @ concat (map env_task (get_or (c_tasks cfg) []))
        else [])"

text \<open>
  \<open>generate_env\<close>: whether it succeeded, the env file afterwards, and the log. The file is
  opened with mode \<open>'w'\<close>: what it held before (\<open>old\<close>) is dropped. The messages:
  "configuration file not found", "YAML parse failed", "environment file generated".
\<close>

definition generate_env ::
  "pystr \<Rightarrow> pystr \<Rightarrow> loaded \<Rightarrow> pystr \<Rightarrow> textfile \<Rightarrow> bool \<times> textfile \<times> log list" where
  "generate_env config_path env_file loaded now old =
     (case loaded of
        NotFound \<Rightarrow>
          (False, old,
           [(L_ERR, [0x9519, 0x8BEF] @ ascii '': '' @ [0x672A, 0x627E, 0x5230, 0x914D, 0x7F6E,
                   0x6587, 0x4EF6] @ ascii '' '' @ config_path)])
      | YamlError e \<Rightarrow>
          (False, old,
           [(L_ERR, [0x9519, 0x8BEF] @ ascii '': '' @ [0x89E3, 0x6790] @ ascii '' YAML ''
                  @ [0x5931, 0x8D25] @ ascii '': '' @ e)])
      | Loaded cfg \<Rightarrow>
          (True, Some (env_text cfg now),
           [(L_INF, [0x73AF, 0x5883, 0x53D8, 0x91CF, 0x6587, 0x4EF6, 0x5DF2, 0x751F, 0x6210]
                  @ ascii '': '' @ env_file)]))"

section \<open>make\_cron.py\<close>

text \<open>
  One pass of the loop of \<open>generate_cron\<close>: what is written for the task, and what is
  logged. \<open>exists\<close> is \<open>os.path.exists\<close>. The messages: "disabled task", "unnamed task",
  "skipping task ...: no script path configured", "skipping task ...: script does not
  exist", "task added"; the comment written before a cron line is "task: name".
\<close>

definition cron_task :: "(pystr \<Rightarrow> bool) \<Rightarrow> task \<Rightarrow> pystr \<times> log list" where
  "cron_task exists t =
     (if \<not> get_or (t_enabled t) True then
        ([], [(L_INF, [0x7981, 0x7528, 0x4EFB, 0x52A1] @ ascii '': ''
                    @ get_or (t_name t) [0x672A, 0x547D, 0x540D, 0x4EFB, 0x52A1])])
      else
        (let name = get_or (t_name t) [0x672A, 0x547D, 0x540D, 0x4EFB, 0x52A1];
             schedule = get_or (t_schedule t) (ascii ''0 * * * *'');
             script = get_or (t_script t) []
         in if script = [] then
              ([], [(L_WAR, [0x8DF3, 0x8FC7, 0x4EFB, 0x52A1] @ ascii '' '' @ name @ ascii '': ''
                          @ [0x672A, 0x914D, 0x7F6E, 0x811A, 0x672C, 0x8DEF, 0x5F84])])
            else if \<not> exists script then
              ([], [(L_WAR, [0x8DF3, 0x8FC7, 0x4EFB, 0x52A1] @ ascii '' '' @ name @ ascii '': ''
                          @ [0x811A, 0x672C, 0x4E0D, 0x5B58, 0x5728] @ ascii '' '' @ script)])
            else
              (let cron_line =
                     (if exists (ascii ''/app/task_wrapper.py'') then
                        schedule
                        @ ascii '' cd /app && . /app/.env 2>/dev/null; python3 /app/task_wrapper.py ''
                        @ [0x27] @ name @ [0x27] @ ascii '' '' @ [0x27] @ script @ [0x27]
                        @ ascii '' >> /proc/1/fd/1 2>&1'' @ [0xA]
                      else
                        schedule @ ascii '' cd /app && . /app/.env 2>/dev/null; python3 ''
                        @ script @ ascii '' >> /proc/1/fd/1 2>&1'' @ [0xA])
               in (ascii ''# '' @ [0x4EFB, 0x52A1] @ ascii '': '' @ name @ [0xA] @ cron_line @ [0xA],
                   [(L_INF, [0x5DF2, 0x6DFB, 0x52A0, 0x4EFB, 0x52A1] @ ascii '': '' @ name
                          @ ascii '' ('' @ schedule @ ascii '') -> '' @ script)]))))"

text \<open>The loop over the tasks: the texts written and the logs, in order.\<close>

fun cron_loop :: "(pystr \<Rightarrow> bool) \<Rightarrow> task list \<Rightarrow> pystr \<times> log list" where
  "cron_loop exists [] = ([], [])"
| "cron_loop exists (t # ts) =
     (fst (cron_task exists t) @ fst (cron_loop exists ts),
      snd (cron_task exists t) @ snd (cron_loop exists ts))"

text \<open>The first line of every run: the comment "scheduled task definitions".\<close>

definition cron_header :: pystr where
  "cron_header = ascii ''# '' @ [0x5B9A, 0x65F6, 0x4EFB, 0x52A1, 0x5B9A, 0x4E49, 0xA]"

text \<open>
  What one run writes and logs for a loaded configuration. Without tasks the function
  returns right after the header, with the warning "no tasks configured".
\<close>

definition cron_text :: "(pystr \<Rightarrow> bool) \<Rightarrow> config \<Rightarrow> pystr \<times> log list" where
  "cron_text exists cfg =
     (if get_or (c_tasks cfg) [] = [] then
        (cron_header, [(L_WAR, [0x672A, 0x914D, 0x7F6E, 0x4EFB, 0x4F55, 0x4EFB, 0x52A1])])
      else
        (cron_header @ fst (cron_loop exists (get_or (c_tasks cfg) [])) @ [0xA],
         snd (cron_loop exists (get_or (c_tasks cfg) []))))"

text \<open>
  \<open>generate_cron\<close>: whether it succeeded, the cron file afterwards, and the log. The file
  is opened with mode \<open>'a'\<close>: the run's text goes after what the file held before, and a
  missing file is created.
\<close>

definition generate_cron ::
  "pystr \<Rightarrow> pystr \<Rightarrow> loaded \<Rightarrow> (pystr \<Rightarrow> bool) \<Rightarrow> textfile \<Rightarrow> bool \<times> textfile \<times> log list" where
  "generate_cron config_path cron_file loaded exists old =
     (case loaded of
        NotFound \<Rightarrow>
          (False, old,
           [(L_ERR, [0x9519, 0x8BEF] @ ascii '': '' @ [0x672A, 0x627E, 0x5230, 0x914D, 0x7F6E,
                   0x6587, 0x4EF6] @ ascii '' '' @ config_path)])
      | YamlError e \<Rightarrow>
          (False, old,
           [(L_ERR, [0x9519, 0x8BEF] @ ascii '': '' @ [0x89E3, 0x6790] @ ascii '' YAML ''
                  @ [0x5931, 0x8D25] @ ascii '': '' @ e)])
      | Loaded cfg \<Rightarrow>
          (True, Some (get_or old [] @ fst (cron_text exists cfg)), snd (cron_text exists cfg)))"

section \<open>task\_wrapper.py\<close>

text \<open>
  The exceptions of the wrapper. \<open>WriteError\<close> stands for whatever a failing write to
  standard output or standard error raises inside \<open>print\<close> or a log call (a broken
  pipe, a text that the stream cannot encode); like the others it is an \<open>Exception\<close>.
\<close>

datatype exn = ValueError | OSError | UnicodeDecodeError | WriteError

text \<open>
  \<open>os.environ\<close> is an association list in insertion order. \<open>os.environ[key] = value\<close>
  replaces the value of a key in place or adds the key at the end. It raises
  \<open>ValueError\<close> for a key or value with a NUL and for a key with an equals sign, and
  \<open>OSError\<close> for the empty key.
\<close>

type_synonym environ = "(pystr \<times> pystr) list"

definition environ_set :: "pystr \<Rightarrow> pystr \<Rightarrow> environ \<Rightarrow> exn + environ" where
  "environ_set key val env =
     (if 0 \<in> set key \<or> 0 \<in> set val \<or> 0x3D \<in> set key then Inl ValueError
      else if key = [] then Inl OSError
      else Inr (AList.update key val env))"

text \<open>\<open>setup_task_env\<close>: the variables named \<open>task_name_KEY\<close>, under the key \<open>KEY\<close>.\<close>

definition setup_task_env :: "pystr \<Rightarrow> environ \<Rightarrow> environ" where
  "setup_task_env task_name env =
     (let prefix = task_name @ ascii ''_''
      in fold (\<lambda>(key, val) task_env.
                 if startswith key prefix
                 then AList.update (drop (length prefix) key) val task_env
                 else task_env)
              env [])"

text \<open>
  \<open>s.strip()\<close>, \<open>s.endswith(p)\<close>, \<open>s.rstrip('\n')\<close> and \<open>s.replace('\\"', '"')\<close>.
\<close>

definition str_strip :: "pystr \<Rightarrow> pystr" where
  "str_strip s = rev (dropWhile isspace (rev (dropWhile isspace s)))"

definition endswith :: "pystr \<Rightarrow> pystr \<Rightarrow> bool" where
  "endswith s p = (length p \<le> length s \<and> drop (length s - length p) s = p)"

definition rstrip_newline :: "pystr \<Rightarrow> pystr" where
  "rstrip_newline s = rev (dropWhile (\<lambda>c. c = 0xA) (rev s))"

fun unescape_quotes :: "pystr \<Rightarrow> pystr" where
  "unescape_quotes (a # b # cs) =
     (if a = 0x5C \<and> b = 0x22 then 0x22 # unescape_quotes cs else a # unescape_quotes (b # cs))"
| "unescape_quotes cs = cs"

text \<open>The pieces of a text between the code points that satisfy \<open>sep\<close>.\<close>

fun pieces :: "(nat \<Rightarrow> bool) \<Rightarrow> pystr \<Rightarrow> pystr list" where
  "pieces sep [] = [[]]"
| "pieces sep (c # cs) =
     (if sep c then [] # pieces sep cs
      else (case pieces sep cs of [] \<Rightarrow> [[c]] | x # xs \<Rightarrow> (c # x) # xs))"

text \<open>
  One line of the env file, as \<open>load_env_file\<close> reads it: \<open>None\<close> for a line it skips,
  else the key and the value it assigns.
\<close>

definition parse_env_line :: "pystr \<Rightarrow> (pystr \<times> pystr) option" where
  "parse_env_line raw =
     (let line = str_strip raw
      in if line = [] \<or> startswith line (ascii ''#'') then None
         else
           (let line = (if startswith line (ascii ''export '') then drop 7 line else line)
            in if 0x3D \<in> set line then
                 (let key = str_strip (takeWhile (\<lambda>c. c \<noteq> 0x3D) line);
                      val = tl (dropWhile (\<lambda>c. c \<noteq> 0x3D) line);
                      val = (if startswith val [0x22] \<and> endswith val [0x22] then butlast (tl val)
                             else if startswith val [0x27] \<and> endswith val [0x27] then butlast (tl val)
                             else val)
                  in Some (key, unescape_quotes val))
               else None))"

text \<open>
  \<open>int(s)\<close> for a text, in base 10; \<open>None\<close> is \<open>ValueError\<close>. The interpreter skips the
  spaces around the literal: the code points of \<open>str.isspace\<close> except U+001C to U+001F.
  A literal is a sign or none, then decimal digits with single underscores between
  them. The digits are those of every script: \<open>decimal_zeros\<close> lists the zero of each
  run of ten decimal digits in Unicode 14.0, the table of CPython 3.11. A literal with
  more digits than \<open>max_str_digits\<close> (\<open>sys.get_int_max_str_digits()\<close>, 4300 unless
  configured; 0 is no limit) is refused.
\<close>

definition int_space :: "nat \<Rightarrow> bool" where
  "int_space c = (isspace c \<and> \<not> (0x1C \<le> c \<and> c \<le> 0x1F))"

definition decimal_zeros :: "nat list" where
  "decimal_zeros =
     [0x30, 0x660, 0x6F0, 0x7C0, 0x966, 0x9E6, 0xA66, 0xAE6, 0xB66, 0xBE6, 0xC66, 0xCE6,
      0xD66, 0xDE6, 0xE50, 0xED0, 0xF20, 0x1040, 0x1090, 0x17E0, 0x1810, 0x1946, 0x19D0,
      0x1A80, 0x1A90, 0x1B50, 0x1BB0, 0x1C40, 0x1C50, 0xA620, 0xA8D0, 0xA900, 0xA9D0,
      0xA9F0, 0xAA50, 0xABF0, 0xFF10, 0x104A0, 0x10D30, 0x11066, 0x110F0, 0x11136,
      0x111D0, 0x112F0, 0x11450, 0x114D0, 0x11650, 0x116C0, 0x11730, 0x118E0, 0x11950,
      0x11C50, 0x11D50, 0x11DA0, 0x16A60, 0x16AC0, 0x16B50, 0x1D7CE, 0x1D7D8, 0x1D7E2,
      0x1D7EC, 0x1D7F6, 0x1E140, 0x1E2F0, 0x1E950, 0x1FBF0]"

definition decimal :: "nat \<Rightarrow> nat option" where
  "decimal c =
     (case List.find (\<lambda>z. z \<le> c \<and> c < z + 10) decimal_zeros of
        None \<Rightarrow> None
      | Some z \<Rightarrow> Some (c - z))"

fun digits_value :: "nat \<Rightarrow> pystr \<Rightarrow> nat option" where
  "digits_value acc [] = Some acc"
| "digits_value acc (c # cs) =
     (case decimal c of
        Some d \<Rightarrow> digits_value (10 * acc + d) cs
      | None \<Rightarrow>
          if c = 0x5F \<and> cs \<noteq> [] \<and> decimal (hd cs) \<noteq> None then digits_value acc cs
          else None)"

definition py_int :: "nat \<Rightarrow> pystr \<Rightarrow> int option" where
  "py_int max_str_digits s =
     (let t = dropWhile int_space s;
          neg = (t \<noteq> [] \<and> hd t = 0x2D);
          u = (if t \<noteq> [] \<and> (hd t = 0x2D \<or> hd t = 0x2B) then tl t else t);
          body = takeWhile (\<lambda>c. decimal c \<noteq> None \<or> c = 0x5F) u;
          rest = dropWhile (\<lambda>c. decimal c \<noteq> None \<or> c = 0x5F) u
      in if body = [] \<or> decimal (hd body) = None \<or> \<not> list_all int_space rest
            \<or> (0 < max_str_digits \<and> max_str_digits < length (filter (\<lambda>c. c \<noteq> 0x5F) body))
         then None
         else (case digits_value 0 body of
                 None \<Rightarrow> None
               | Some n \<Rightarrow> Some (if neg then - int n else int n)))"

text \<open>
  \<open>xs[-n:]\<close>: the last \<open>n\<close> elements for a positive \<open>n\<close>; for \<open>n \<le> 0\<close> the slice starts
  at index \<open>-n\<close> from the front.
\<close>

definition last_slice :: "int \<Rightarrow> 'a list \<Rightarrow> 'a list" where
  "last_slice n xs = (if 0 < n then drop (length xs - nat n) xs else drop (nat (- n)) xs)"

text \<open>
  The world around one run of the wrapper.
  \<^item> \<open>w_env_file\<close>: \<open>/app/.env\<close> is missing, or it gives a text and then either ends or
    fails to be read further (a file that cannot be opened gives the empty text and
    fails).
  \<^item> \<open>w_environ\<close>: the process environment at the start.
  \<^item> \<open>w_stdout_raises n\<close>: whether the \<open>n\<close>-th write to standard output of the run,
    counted from 0, raises. Every log call is one write (the log line, and the notice
    that \<open>logger.log\<close> prints when it cannot write the log file), and so is every
    echoed line.
  \<^item> \<open>w_stderr_raises\<close>: whether the write of the usage line to standard error raises.
  \<^item> \<open>w_spawn\<close>: what starting the child with a command line and an environment gives:
    an exception from \<open>Popen\<close>, or the lines that the wrapper reads from the child,
    whether the read after them raises (as it does for output that does not decode),
    and the return code of \<open>wait\<close> (the exit code, or minus the number of the signal
    that ended the child).
  \<^item> \<open>w_notify_path\<close>: what \<open>Path('/app/notify.py').exists()\<close> gives: the file is
    there, it is not, or the check raises (it does for an error other than a missing
    path, such as a directory that may not be searched).
  \<^item> \<open>w_notify_raises\<close>: whether running the notifier with a command line raises.
  \<^item> \<open>w_max_str_digits\<close>: the interpreter's limit on the digits of an integer literal.
\<close>

datatype env_source = NoFile | Readable pystr bool

datatype spawned = SpawnError exn | Ran "pystr list" bool int

datatype probe = Present | Absent | ProbeError

record world =
  w_env_file :: env_source
  w_environ :: environ
  w_stdout_raises :: "nat \<Rightarrow> bool"
  w_stderr_raises :: bool
  w_spawn :: "pystr list \<Rightarrow> environ \<Rightarrow> spawned"
  w_notify_path :: probe
  w_notify_raises :: "pystr list \<Rightarrow> bool"
  w_max_str_digits :: nat

text \<open>
  How the wrapper ends: with an exit status, or with an exception that nothing catches
  (the interpreter then prints it and ends with status 1). \<open>sys.exit(c)\<close> gives the
  status \<open>c\<close> modulo 256.
\<close>

datatype outcome = Exit int | Uncaught exn

definition sys_exit :: "int \<Rightarrow> outcome" where
  "sys_exit c = Exit (c mod 256)"

text \<open>
  \<open>log_debug\<close> writes only when \<open>DEBUG\<close> reads \<open>true\<close> in lower case. The letters of
  \<open>true\<close> are lower-case forms of their ASCII capitals only.
\<close>

definition debug_on :: "environ \<Rightarrow> bool" where
  "debug_on env =
     (case map_of env (ascii ''DEBUG'') of
        None \<Rightarrow> False
      | Some s \<Rightarrow> map (\<lambda>c. if 0x41 \<le> c \<and> c \<le> 0x5A then c + 0x20 else c) s = ascii ''true'')"

text \<open>
  The loop of \<open>load_env_file\<close> over the lines, from the \<open>k\<close>-th write on: whether it ended
  with an exception, the environment, and the number of writes made. An assignment
  that raises, or a \<open>log_debug\<close> that raises, ends the loop; the assignments made so far
  stay.
\<close>

fun load_env_lines :: "world \<Rightarrow> pystr list \<Rightarrow> environ \<Rightarrow> nat \<Rightarrow> bool \<times> environ \<times> nat" where
  "load_env_lines w [] env k = (False, env, k)"
| "load_env_lines w (l # ls) env k =
     (case parse_env_line l of
        None \<Rightarrow> load_env_lines w ls env k
      | Some (key, val) \<Rightarrow>
          (case environ_set key val env of
             Inl e \<Rightarrow> (True, env, k)
           | Inr env' \<Rightarrow>
               if debug_on env' then
                 (if w_stdout_raises w k then (True, env', Suc k)
                  else load_env_lines w ls env' (Suc k))
               else load_env_lines w ls env' k))"

text \<open>
  \<open>load_env_file\<close>, from the \<open>k\<close>-th write on. For a missing file it logs a warning and
  returns. An exception of the loop or of the read is caught and logged with
  \<open>log_error\<close>. Both log calls are outside the \<open>try\<close>: when they raise, so does the
  function. Text mode reads a carriage return as a line end too.
\<close>

definition load_env_file :: "world \<Rightarrow> environ \<Rightarrow> nat \<Rightarrow> exn + environ \<times> nat" where
  "load_env_file w env k =
     (case w_env_file w of
        NoFile \<Rightarrow> (if w_stdout_raises w k then Inl WriteError else Inr (env, Suc k))
      | Readable txt fails \<Rightarrow>
          (case load_env_lines w (pieces (\<lambda>c. c = 0xA \<or> c = 0xD) txt) env k of
             (raised, env', k') \<Rightarrow>
               if raised \<or> fails then
                 (if w_stdout_raises w k' then Inl WriteError else Inr (env', Suc k'))
               else Inr (env', k')))"

text \<open>
  The loop of \<open>main\<close> that exports the task's variables and logs each name. Nothing
  catches what it raises.
\<close>

fun export_task_env :: "world \<Rightarrow> environ \<Rightarrow> environ \<Rightarrow> nat \<Rightarrow> exn + environ \<times> nat" where
  "export_task_env w [] env k = Inr (env, k)"
| "export_task_env w ((key, val) # kvs) env k =
     (case environ_set key val env of
        Inl e \<Rightarrow> Inl e
      | Inr env' \<Rightarrow>
          if w_stdout_raises w k then Inl WriteError
          else export_task_env w kvs env' (Suc k))"

text \<open>
  The start of \<open>main\<close> after the check of the arguments: the env file loaded, then the
  task's variables exported without their prefix. The result is the environment that
  the child inherits and the number of writes made so far.
\<close>

definition task_environ :: "pystr \<Rightarrow> world \<Rightarrow> exn + environ \<times> nat" where
  "task_environ task_name w =
     (case load_env_file w (w_environ w) 0 of
        Inl e \<Rightarrow> Inl e
      | Inr (env, k) \<Rightarrow> export_task_env w (setup_task_env task_name env) env k)"

text \<open>
  The loop that reads the child's output: each line loses its newline, is kept, and is
  echoed with \<open>print\<close>. The result is the lines kept and the number of writes made.
\<close>

fun echo_lines :: "world \<Rightarrow> pystr list \<Rightarrow> nat \<Rightarrow> exn + pystr list \<times> nat" where
  "echo_lines w [] k = Inr ([], k)"
| "echo_lines w (l # ls) k =
     (if w_stdout_raises w k then Inl WriteError
      else (case echo_lines w ls (Suc k) of
              Inl e \<Rightarrow> Inl e
            | Inr (output_lines, k') \<Rightarrow> Inr (rstrip_newline l # output_lines, k')))"

text \<open>\<open>int(os.environ.get('LOG_LINES', 15))\<close>.\<close>

definition get_log_lines :: "nat \<Rightarrow> environ \<Rightarrow> int option" where
  "get_log_lines max_str_digits env =
     (case map_of env (ascii ''LOG_LINES'') of
        None \<Rightarrow> Some 15
      | Some s \<Rightarrow> py_int max_str_digits s)"

text \<open>
  The \<open>try\<close> block of the failure branch of \<open>main\<close>: the exception it ends with, if any,
  and the command lines with which it ran the notifier. \<open>LOG_LINES\<close> is read inside the
  block, so a value that is no integer ends it before the run. The title is the task
  name and "execution failed", the body "see the log for details", and the excerpt of
  an empty output "no output".
\<close>

definition notify_failure ::
  "pystr \<Rightarrow> environ \<Rightarrow> pystr list \<Rightarrow> world \<Rightarrow> exn option \<times> pystr list list" where
  "notify_failure task_name env output_lines w =
     (case get_log_lines (w_max_str_digits w) env of
        None \<Rightarrow> (Some ValueError, [])
      | Some log_lines \<Rightarrow>
          (let task_log_content =
                 (if output_lines \<noteq> [] then join [0xA] (last_slice log_lines output_lines)
                  else [0x65E0, 0x8F93, 0x51FA]);
               notify_cmd =
                 [ascii ''python3'', ascii ''/app/notify.py'',
                  task_name @ ascii '' '' @ [0x6267, 0x884C, 0x5931, 0x8D25],
                  [0x8BE6, 0x60C5, 0x89C1, 0x65E5, 0x5FD7],
                  ascii ''--log-content'', task_log_content,
                  ascii ''--log-lines'', str_int log_lines]
           in (if w_notify_raises w notify_cmd then Some OSError else None, [notify_cmd])))"

text \<open>
  \<open>main\<close> from the two log lines before the child on, with the environment \<open>env\<close> set
  and \<open>k\<close> writes made: how the wrapper ends and the notifier runs it made. In order:
  the log lines of the task and the start time, \<open>Popen\<close>, the loop over the child's
  output, a read that raises, \<open>wait\<close>, the log line of the end time, and for a return
  code other than 0 the check for the notifier and, when it is there, a log line and
  the \<open>try\<close> block.
  Only the \<open>try\<close> block has a handler, \<open>except Exception: pass\<close>, so both of its results
  go on to \<open>sys.exit\<close>.
\<close>

definition run_child ::
  "pystr \<Rightarrow> pystr list \<Rightarrow> environ \<Rightarrow> nat \<Rightarrow> world \<Rightarrow> outcome \<times> pystr list list" where
  "run_child task_name cmd env k w =
     (if w_stdout_raises w k \<or> w_stdout_raises w (Suc k) then (Uncaught WriteError, [])
      else
        (case w_spawn w cmd env of
           SpawnError e \<Rightarrow> (Uncaught e, [])
         | Ran raw undecodable exit_code \<Rightarrow>
             (case echo_lines w raw (Suc (Suc k)) of
                Inl e \<Rightarrow> (Uncaught e, [])
              | Inr (output_lines, k') \<Rightarrow>
                  if undecodable then (Uncaught UnicodeDecodeError, [])
                  else if w_stdout_raises w k' then (Uncaught WriteError, [])
                  else if exit_code \<noteq> 0 then
                    (case w_notify_path w of
                       ProbeError \<Rightarrow> (Uncaught OSError, [])
                     | Absent \<Rightarrow> (sys_exit exit_code, [])
                     | Present \<Rightarrow>
                         if w_stdout_raises w (Suc k') then (Uncaught WriteError, [])
                         else
                           (case notify_failure task_name env output_lines w of
                              (Some e, runs) \<Rightarrow> (sys_exit exit_code, runs)
                            | (None, runs) \<Rightarrow> (sys_exit exit_code, runs)))
                  else (sys_exit exit_code, []))))"

text \<open>
  \<open>main\<close>. With fewer than two arguments it prints the usage to standard error and ends
  with \<open>sys.exit(1)\<close>.
\<close>

definition main :: "pystr list \<Rightarrow> world \<Rightarrow> outcome \<times> pystr list list" where
  "main argv w =
     (if length argv < 3 then
        (if w_stderr_raises w then (Uncaught WriteError, []) else (sys_exit 1, []))
      else
        (let task_name = argv ! 1;
             script_path = argv ! 2;
             script_args = drop 3 argv
         in case task_environ task_name w of
              Inl e \<Rightarrow> (Uncaught e, [])
            | Inr (env, k) \<Rightarrow>
                run_child task_name ([ascii ''python3'', script_path] @ script_args) env k w))"

section \<open>notify.py\<close>

text \<open>
  The fields of the loaded notification settings that \<open>notify\<close> reads, and the two
  channels. A channel in the result is a sender thread that was started.
\<close>

record notify_config =
  on_failure :: bool
  on_success :: bool
  webhook_url :: pystr
  webhook_method :: pystr
  ntfy_url :: pystr
  ntfy_topic :: pystr

datatype channel = WEBHOOK | NTFY

definition check_webhook_config :: "notify_config \<Rightarrow> bool" where
  "check_webhook_config cfg = (webhook_url cfg \<noteq> [] \<and> webhook_method cfg \<noteq> [])"

definition check_ntfy_config :: "notify_config \<Rightarrow> bool" where
  "check_ntfy_config cfg = (ntfy_url cfg \<noteq> [] \<and> ntfy_topic cfg \<noteq> [])"

text \<open>The title names a failure: it holds "failed", "error" or "exception".\<close>

definition is_failure :: "pystr \<Rightarrow> bool" where
  "is_failure title =
     (str_in [0x5931, 0x8D25] title \<or> str_in [0x9519, 0x8BEF] title
      \<or> str_in [0x5F02, 0x5E38] title)"

text \<open>
  What \<open>notify\<close> does once the checks have passed: a thread for each configured channel,
  a warning for each channel that is not configured.
\<close>

definition dispatch :: "notify_config \<Rightarrow> channel list \<times> log list" where
  "dispatch cfg =
     ((if check_webhook_config cfg then [WEBHOOK] else [])
      @ (if check_ntfy_config cfg then [NTFY] else []),
      (if check_webhook_config cfg then []
       else [(L_WAR, ascii ''WEBHOOK '' @ [0x672A, 0x914D, 0x7F6E] @ ascii '' ('' @ [0x7F3A, 0x5C11]
                     @ ascii '' notify.webhook.url)'')])
      @ (if check_ntfy_config cfg then []
         else [(L_WAR, ascii ''NTFY '' @ [0x672A, 0x914D, 0x7F6E] @ ascii '' ('' @ [0x7F3A, 0x5C11]
                       @ ascii '' notify.ntfy.url '' @ [0x6216] @ ascii '' notify.ntfy.topic)'')]))"

text \<open>
  \<open>notify\<close>: the channels contacted and the log. The log excerpt and its line count
  are handed to the senders as they are and decide nothing here, so they are left out.
  The messages: "empty content, skipped", "failure notification skipped
  (on_failure=false)", "success notification skipped (on_success=false)".
\<close>

definition notify :: "notify_config \<Rightarrow> pystr \<Rightarrow> pystr \<Rightarrow> bool \<Rightarrow> channel list \<times> log list" where
  "notify cfg title content force =
     (if content = [] then
        ([], [(L_WAR, [0x63A8, 0x9001, 0x5185, 0x5BB9, 0x4E3A, 0x7A7A, 0xFF0C, 0x8DF3, 0x8FC7]
                      @ ascii '': '' @ title)])
      else if \<not> force \<and> is_failure title \<and> \<not> on_failure cfg then
        ([], [(L_INF, [0x8DF3, 0x8FC7, 0x5931, 0x8D25, 0x901A, 0x77E5, 0xFF08]
                      @ ascii ''on_failure=false'' @ [0xFF09] @ ascii '': '' @ title)])
      else if \<not> force \<and> \<not> is_failure title \<and> \<not> on_success cfg then
        ([], [(L_INF, [0x8DF3, 0x8FC7, 0x6210, 0x529F, 0x901A, 0x77E5, 0xFF08]
                      @ ascii ''on_success=false'' @ [0xFF09] @ ascii '': '' @ title)])
      else dispatch cfg)"

section \<open>Scenarios\<close>

text \<open>The configuration of the listing scenario: one task \<open>demo\<close>, and \<open>global_env\<close>
  \<open>{A: "1"}\<close>.\<close>

definition demo_list_config :: config where
  "demo_list_config =
     \<lparr>c_tasks = Some [\<lparr>t_name = Some (ascii ''demo''), t_schedule = Some (ascii ''0 * * * *''),
                        t_script = Some (ascii ''x.py''), t_enabled = Some True,
                        t_description = None, t_env = None\<rparr>],
      c_global_env = Some [(ascii ''A'', YStr (ascii ''1''))]\<rparr>"

text \<open>Notification settings with both outcome flags off and only the webhook configured.\<close>

definition gate_config :: notify_config where
  "gate_config =
     \<lparr>on_failure = False, on_success = False,
      webhook_url = ascii ''https://example.com/webhook'', webhook_method = ascii ''POST'',
      ntfy_url = [], ntfy_topic = []\<rparr>"

text \<open>
  A run of the wrapper for the task \<open>demo\<close>: the env file is missing, no write to
  standard output raises, the child prints three lines that decode and ends with the
  given return code, running the notifier raises, and the digit limit is the default.
\<close>

definition demo_argv :: "pystr list" where
  "demo_argv = [ascii ''task_wrapper.py'', ascii ''demo'', ascii ''x.py'']"

definition demo_output :: "pystr list" where
  "demo_output = [ascii ''step 1\<newline>'', ascii ''step 2\<newline>'', ascii ''boom'']"

definition demo_world :: "int \<Rightarrow> probe \<Rightarrow> environ \<Rightarrow> world" where
  "demo_world code notify_path env =
     \<lparr>w_env_file = NoFile, w_environ = env,
      w_stdout_raises = (\<lambda>n. False),
      w_stderr_raises = False,
      w_spawn = (\<lambda>cmd e. Ran demo_output False code),
      w_notify_path = notify_path,
      w_notify_raises = (\<lambda>cmd. True),
      w_max_str_digits = 4300\<rparr>"

text \<open>
  A configuration with three tasks: \<open>demo\<close> is enabled and its script exists, \<open>off\<close> is
  disabled, and the script of \<open>gone\<close> does not exist. \<open>demo_exists\<close> is the file system
  that goes with it, and \<open>demo_entry\<close> the entry written for \<open>demo\<close>.
\<close>

definition task_demo :: task where
  "task_demo =
     \<lparr>t_name = Some (ascii ''demo''), t_schedule = Some (ascii ''0 * * * *''),
      t_script = Some (ascii ''x.py''), t_enabled = Some True,
      t_description = None, t_env = None\<rparr>"

definition task_off :: task where
  "task_off =
     \<lparr>t_name = Some (ascii ''off''), t_schedule = Some (ascii ''5 4 * * *''),
      t_script = Some (ascii ''x.py''), t_enabled = Some False,
      t_description = None, t_env = None\<rparr>"

definition task_gone :: task where
  "task_gone =
     \<lparr>t_name = Some (ascii ''gone''), t_schedule = Some (ascii ''5 4 * * *''),
      t_script = Some (ascii ''y.py''), t_enabled = None,
      t_description = None, t_env = None\<rparr>"

definition three_task_config :: config where
  "three_task_config = \<lparr>c_tasks = Some [task_demo, task_off, task_gone], c_global_env = None\<rparr>"

definition demo_exists :: "pystr \<Rightarrow> bool" where
  "demo_exists p = (p = ascii ''x.py'' \<or> p = ascii ''/app/task_wrapper.py'')"

definition demo_entry :: pystr where
  "demo_entry =
     ascii ''# '' @ [0x4EFB, 0x52A1] @ ascii '': demo'' @ [0xA]
     @ ascii ''0 * * * * cd /app && . /app/.env 2>/dev/null; python3 /app/task_wrapper.py ''
     @ [0x27] @ ascii ''demo'' @ [0x27] @ ascii '' '' @ [0x27] @ ascii ''x.py'' @ [0x27]
     @ ascii '' >> /proc/1/fd/1 2>&1'' @ [0xA, 0xA]"

text \<open>
  The configuration of the round trip: the task \<open>demo\<close> with \<open>env: {FOO: bar}\<close>, and the
  line that stands for its variable in the env file, \<open>export demo_FOO="bar"\<close>.
\<close>

definition task_roundtrip :: task where
  "task_roundtrip =
     \<lparr>t_name = Some (ascii ''demo''), t_schedule = Some (ascii ''0 * * * *''),
      t_script = Some (ascii ''x.py''), t_enabled = Some True,
      t_description = None, t_env = Some [(ascii ''FOO'', YStr (ascii ''bar''))]\<rparr>"

definition roundtrip_config :: config where
  "roundtrip_config =
     \<lparr>c_tasks = Some [task_roundtrip], c_global_env = Some [(ascii ''A'', YStr (ascii ''1''))]\<rparr>"



text \<open>A configuration whose only task is enabled and names a script that does not exist.\<close>

definition gone_config :: config where
  "gone_config = \<lparr>c_tasks = Some [task_gone], c_global_env = None\<rparr>"

section \<open>Properties\<close>

subsection \<open>Auxiliary facts\<close>

lemma str_nat_digit: "n < 10 \<Longrightarrow> str_nat n = [48 + n]"
  by (simp add: str_nat.simps)

lemma cons_neq_replicate: "c \<noteq> d \<Longrightarrow> c # cs \<noteq> replicate n d"
  by (cases n) auto

subsection \<open>The notifier's gate\<close>

text \<open>
  C9. \<open>notify\<close> with an empty content contacts no channel and logs one warning,
  whatever the \<open>force\<close> flag and the settings are: the check of the content comes first.
\<close>

theorem notify_empty_content:
  "notify cfg title [] force =
     ([], [(L_WAR, [0x63A8, 0x9001, 0x5185, 0x5BB9, 0x4E3A, 0x7A7A, 0xFF0C, 0x8DF3, 0x8FC7]
                   @ ascii '': '' @ title)])"
  by (simp add: notify_def)

theorem notify_empty_content_witness:
  "fst (notify gate_config (ascii ''demo'') [] True) = []
   \<and> fst (notify gate_config (ascii ''demo'') (ascii ''x'') True) = [WEBHOOK]"
  using notify_empty_content [of gate_config "ascii ''demo''" True]
  by (simp add: notify_def dispatch_def gate_config_def check_webhook_config_def
      check_ntfy_config_def ascii_def)

text \<open>
  C8. Without \<open>force\<close>, a title that names a failure contacts no channel when
  \<open>on_failure\<close> is off, and a title that names none contacts no channel when \<open>on_success\<close>
  is off. With \<open>force\<close> (and a content, see C9) the outcome flags are not read: the
  channels contacted are the configured ones.
\<close>

theorem notify_gate:
  "(\<not> force \<and> is_failure title \<and> \<not> on_failure cfg \<longrightarrow> fst (notify cfg title content force) = [])
   \<and> (\<not> force \<and> \<not> is_failure title \<and> \<not> on_success cfg \<longrightarrow>
        fst (notify cfg title content force) = [])
   \<and> (force \<and> content \<noteq> [] \<longrightarrow>
        fst (notify cfg title content force) =
          (if check_webhook_config cfg then [WEBHOOK] else [])
          @ (if check_ntfy_config cfg then [NTFY] else []))"
  by (simp add: notify_def dispatch_def)

theorem notify_gate_witness:
  "is_failure (ascii ''demo '' @ [0x6267, 0x884C, 0x5931, 0x8D25])
   \<and> \<not> on_failure gate_config
   \<and> fst (notify gate_config (ascii ''demo '' @ [0x6267, 0x884C, 0x5931, 0x8D25]) (ascii ''x'') False) = []
   \<and> \<not> is_failure (ascii ''demo ok'')
   \<and> \<not> on_success gate_config
   \<and> fst (notify gate_config (ascii ''demo ok'') (ascii ''x'') False) = []
   \<and> fst (notify gate_config (ascii ''demo '' @ [0x6267, 0x884C, 0x5931, 0x8D25]) (ascii ''x'') True)
       = [WEBHOOK]"
proof -
  have f: "is_failure (ascii ''demo '' @ [0x6267, 0x884C, 0x5931, 0x8D25])"
    by (simp add: is_failure_def ascii_def startswith_def)
  have s: "\<not> is_failure (ascii ''demo ok'')"
    by (simp add: is_failure_def ascii_def startswith_def)
  have c: "\<not> on_failure gate_config" "\<not> on_success gate_config"
    "check_webhook_config gate_config" "\<not> check_ntfy_config gate_config" "ascii ''x'' \<noteq> []"
    by (simp_all add: gate_config_def check_webhook_config_def check_ntfy_config_def ascii_def)
  show ?thesis
    using f s c
      notify_gate [of False "ascii ''demo '' @ [0x6267, 0x884C, 0x5931, 0x8D25]" gate_config
        "ascii ''x''"]
      notify_gate [of False "ascii ''demo ok''" gate_config "ascii ''x''"]
      notify_gate [of True "ascii ''demo '' @ [0x6267, 0x884C, 0x5931, 0x8D25]" gate_config
        "ascii ''x''"]
    by simp
qed

subsection \<open>The list command\<close>

lemma str_split_hourly:
  "str_split (ascii ''0 * * * *'') =
     [ascii ''0'', ascii ''*'', ascii ''*'', ascii ''*'', ascii ''*'']"
  by (simp add: str_split_def ascii_def isspace_def)

lemma parse_cron_hourly: "parse_cron (ascii ''0 * * * *'') = ascii ''0'' @ [0x5206]"
  by (simp add: parse_cron_def str_split_hourly)
     (simp add: ascii_def minute_desc_def hour_desc_def date_desc_def startswith_def)

text \<open>
  C1, as stated, fails: for the schedule \<open>0 * * * *\<close> the description is not "every
  hour" (\<open>[0x6BCF, 0x5C0F, 0x65F6]\<close>), and the listing of the scenario holds no line
  "description: every hour". \<open>parse_cron\<close> appends "every hour" only when the text for
  the minute holds the character "every" (\<open>0x6BCF\<close>), and here that text is "0" and the
  minute mark.
\<close>

theorem list_demo_counterexample:
  "parse_cron (ascii ''0 * * * *'') \<noteq> [0x6BCF, 0x5C0F, 0x65F6]
   \<and> Plain (ascii ''   '' @ [0x8BF4, 0x660E] @ ascii '': '' @ [0x6BCF, 0x5C0F, 0x65F6])
       \<notin> set (fst (cmd_list (Some demo_list_config) False (\<lambda>s. None)))"
  by (simp add: parse_cron_hourly cmd_list_def demo_list_config_def get_or_def list_task_def
      enumerate1_def str_nat_digit Let_def)
     (simp add: ascii_def cons_neq_replicate)

text \<open>
  C1, amended. For the scenario's configuration the list command returns 0 and prints
  the task count 1 ("total tasks: 1"), the summary "1 enabled, 0 disabled", and the
  description line "0" followed by the minute mark, that is
  \<open>parse_cron "0 * * * *"\<close> is the minute part alone. The whole listing is given; the
  line of the next run is there when the cron evaluator is installed and answers.
\<close>

theorem list_demo:
  "parse_cron (ascii ''0 * * * *'') = ascii ''0'' @ [0x5206]
   \<and> cmd_list (Some demo_list_config) croniter_available next_run =
       ([Info ([0x5B9A, 0x65F6, 0x4EFB, 0x52A1, 0x8BA1, 0x5212, 0x5217, 0x8868] @ ascii '':''),
         Plain ([0xA, 0x4EFB, 0x52A1, 0x603B, 0x6570] @ ascii '': 1'' @ [0xA]),
         Plain (replicate 80 0x2D),
         Plain ([0xA] @ ascii ''1. ['' @ [0x542F, 0x7528] @ ascii ''] demo''),
         Plain (ascii ''   '' @ [0x8C03, 0x5EA6] @ ascii '': 0 * * * *''),
         Plain (ascii ''   '' @ [0x8BF4, 0x660E] @ ascii '': 0'' @ [0x5206])]
        @ (if croniter_available then
             (case next_run (ascii ''0 * * * *'') of
                Some when \<Rightarrow> [Plain (ascii ''   '' @ [0x4E0B, 0x6B21] @ ascii '': '' @ when)]
              | None \<Rightarrow> [])
           else [])
        @ [Plain (ascii ''   '' @ [0x811A, 0x672C] @ ascii '': x.py''),
           Plain ([0xA] @ replicate 80 0x2D),
           Plain ([0xA, 0x7EDF, 0x8BA1] @ ascii '': 1 '' @ [0x4E2A, 0x542F, 0x7528]
                  @ ascii '', 0 '' @ [0x4E2A, 0x7981, 0x7528])]
        @ (if \<not> croniter_available then
             [Plain ([0xA, 0x63D0, 0x793A] @ ascii '': '' @ [0x5B89, 0x88C5]
                     @ ascii '' croniter (pip install croniter) ''
                     @ [0x53EF, 0x663E, 0x793A, 0x4E0B, 0x6B21, 0x6267, 0x884C, 0x65F6, 0x95F4])]
           else []),
        0)"
  by (simp add: parse_cron_hourly cmd_list_def demo_list_config_def get_or_def list_task_def
      enumerate1_def str_nat_digit Let_def)
     (simp add: ascii_def)

theorem list_demo_witness:
  "fst (cmd_list (Some demo_list_config) True (\<lambda>s. Some (ascii ''2026-01-01 01:00''))) ! 5
     = Plain (ascii ''   '' @ [0x8BF4, 0x660E] @ ascii '': 0'' @ [0x5206])
   \<and> snd (cmd_list (Some demo_list_config) True (\<lambda>s. Some (ascii ''2026-01-01 01:00''))) = 0"
  using list_demo [of True "\<lambda>s. Some (ascii ''2026-01-01 01:00'')"] by simp

subsection \<open>The task wrapper\<close>

lemma decimal_simps:
  "decimal 0x30 = Some 0" "decimal 0x32 = Some 2" "decimal 0x61 = None" "decimal 0x1F = None"
  "decimal 0x662 = Some 2"
  by (simp_all add: decimal_def decimal_zeros_def)

lemma py_int_2: "py_int m (ascii ''2'') = Some 2"
  by (auto simp add: py_int_def ascii_def int_space_def isspace_def decimal_simps Let_def)

lemma py_int_0: "py_int m (ascii ''0'') = Some 0"
  by (auto simp add: py_int_def ascii_def int_space_def isspace_def decimal_simps Let_def)

lemma py_int_abc: "py_int m (ascii ''abc'') = None"
  by (auto simp add: py_int_def ascii_def int_space_def isspace_def decimal_simps Let_def)

lemma py_int_sep: "py_int m (ascii ''2'' @ [0x1F]) = None"
  by (auto simp add: py_int_def ascii_def int_space_def isspace_def decimal_simps Let_def)

lemma py_int_arabic: "py_int m [0x662] = Some 2"
  by (auto simp add: py_int_def ascii_def int_space_def isspace_def decimal_simps Let_def)

lemma echo_lines_ok:
  "\<forall>n. k \<le> n \<longrightarrow> \<not> w_stdout_raises w n \<Longrightarrow>
   echo_lines w raw k = Inr (map rstrip_newline raw, k + length raw)"
  by (induction raw arbitrary: k) simp_all

lemma task_environ_demo:
  "task_environ (ascii ''demo'') (demo_world code b [(ascii ''LOG_LINES'', v)])
     = Inr ([(ascii ''LOG_LINES'', v)], 1)"
  by (simp add: task_environ_def demo_world_def load_env_file_def setup_task_env_def
      startswith_def ascii_def)

lemma task_environ_demo_empty:
  "task_environ (ascii ''demo'') (demo_world code b []) = Inr ([], 1)"
  by (simp add: task_environ_def demo_world_def load_env_file_def setup_task_env_def)

lemma demo_output_lines:
  "map rstrip_newline demo_output = [ascii ''step 1'', ascii ''step 2'', ascii ''boom'']"
  by (simp add: demo_output_def rstrip_newline_def ascii_def)

lemma echo_demo:
  "\<not> w_stdout_raises w k \<Longrightarrow> \<not> w_stdout_raises w (Suc k) \<Longrightarrow> \<not> w_stdout_raises w (Suc (Suc k)) \<Longrightarrow>
   echo_lines w demo_output k
     = Inr ([ascii ''step 1'', ascii ''step 2'', ascii ''boom''], Suc (Suc (Suc k)))"
  using demo_output_lines by (simp add: demo_output_def)

text \<open>
  C3, as stated, fails. A child that ends with the exit code 0 after output that does
  not decode leaves the wrapper with an uncaught \<open>UnicodeDecodeError\<close>. A write of the
  log line of the end time that raises (the write number 6 of this run) leaves it with
  that exception. After a child that ends with the exit code 1, a check for
  \<open>/app/notify.py\<close> that raises leaves it with an uncaught \<open>OSError\<close>. And for a child
  ended by signal 9 the return code is \<open>-9\<close> and the status of the wrapper 247.
\<close>

theorem wrapper_exit_code_counterexample:
  "main demo_argv ((demo_world 0 Present []) \<lparr>w_spawn := \<lambda>cmd e. Ran demo_output True 0\<rparr>)
     = (Uncaught UnicodeDecodeError, [])
   \<and> main demo_argv ((demo_world 0 Present []) \<lparr>w_stdout_raises := \<lambda>n. n = 6\<rparr>)
       = (Uncaught WriteError, [])
   \<and> main demo_argv (demo_world 1 ProbeError []) = (Uncaught OSError, [])
   \<and> fst (main demo_argv (demo_world (- 9) Present [])) = Exit 247"
proof -
  have t: "\<And>f. task_environ (ascii ''demo'') ((demo_world 0 Present []) \<lparr>w_spawn := f\<rparr>) = Inr ([], 1)"
    by (simp add: task_environ_def demo_world_def load_env_file_def setup_task_env_def)
  have u: "task_environ (ascii ''demo'') ((demo_world 0 Present []) \<lparr>w_stdout_raises := \<lambda>n. n = 6\<rparr>)
           = Inr ([], 1)"
    by (simp add: task_environ_def demo_world_def load_env_file_def setup_task_env_def)
  have a: "main demo_argv ((demo_world 0 Present []) \<lparr>w_spawn := \<lambda>cmd e. Ran demo_output True 0\<rparr>)
     = (Uncaught UnicodeDecodeError, [])"
    by (simp add: main_def demo_argv_def t Let_def)
       (simp add: run_child_def demo_world_def echo_demo)
  have b: "main demo_argv ((demo_world 0 Present []) \<lparr>w_stdout_raises := \<lambda>n. n = 6\<rparr>)
       = (Uncaught WriteError, [])"
    by (simp add: main_def demo_argv_def u Let_def)
       (simp add: run_child_def demo_world_def echo_demo)
  have c: "fst (main demo_argv (demo_world (- 9) Present [])) = Exit 247"
    by (simp add: main_def demo_argv_def task_environ_demo_empty Let_def)
       (simp add: run_child_def demo_world_def echo_demo sys_exit_def notify_failure_def
          get_log_lines_def Let_def)
  have d: "main demo_argv (demo_world 1 ProbeError []) = (Uncaught OSError, [])"
    by (simp add: main_def demo_argv_def task_environ_demo_empty Let_def)
       (simp add: run_child_def demo_world_def echo_demo)
  from a b c d show ?thesis by simp
qed

text \<open>
  C3, amended. Once the child has run with the return code \<open>c\<close>, its output has been
  read to the end, no write to standard output raises, and the check for
  \<open>/app/notify.py\<close> (made when \<open>c\<close> is not 0) does not raise, the wrapper ends with
  \<open>sys.exit(c)\<close>: its status is \<open>c\<close> modulo 256, which is \<open>c\<close> for every exit code from 0
  to 255. This holds in every such world: whether the notifier exists, whatever
  \<open>LOG_LINES\<close> holds, and whether running the notifier raises.
\<close>

theorem wrapper_exit_code:
  assumes "3 \<le> length argv"
      and "task_environ (argv ! 1) w = Inr (env, k)"
      and "w_spawn w ([ascii ''python3'', argv ! 2] @ drop 3 argv) env = Ran raw False c"
      and "\<forall>n. k \<le> n \<longrightarrow> \<not> w_stdout_raises w n"
      and "c \<noteq> 0 \<longrightarrow> w_notify_path w \<noteq> ProbeError"
  shows "fst (main argv w) = Exit (c mod 256)
       \<and> (0 \<le> c \<and> c < 256 \<longrightarrow> fst (main argv w) = Exit c)"
proof -
  have e: "echo_lines w raw (Suc (Suc k)) = Inr (map rstrip_newline raw, Suc (Suc k) + length raw)"
    using assms(4) by (intro echo_lines_ok) simp
  have m: "main argv w = run_child (argv ! 1) ([ascii ''python3'', argv ! 2] @ drop 3 argv) env k w"
    using assms(1,2) by (simp add: main_def Let_def)
  have "fst (main argv w) = Exit (c mod 256)"
  proof (cases "c = 0")
    case True
    then show ?thesis
      using assms(3,4) e by (simp add: m run_child_def sys_exit_def)
  next
    case False
    obtain r runs where n: "notify_failure (argv ! 1) env (map rstrip_newline raw) w = (r, runs)"
      by (cases "notify_failure (argv ! 1) env (map rstrip_newline raw) w")
    from False assms(5) show ?thesis
      using assms(3,4) e n
      by (cases "w_notify_path w"; cases r) (simp_all add: m run_child_def sys_exit_def)
  qed
  then show ?thesis by simp
qed


theorem wrapper_exit_code_witness:
  "fst (notify_failure (ascii ''demo'') [(ascii ''LOG_LINES'', ascii ''2'')]
          (map rstrip_newline demo_output)
          (demo_world 1 Present [(ascii ''LOG_LINES'', ascii ''2'')])) = Some OSError
   \<and> fst (main demo_argv (demo_world 1 Present [(ascii ''LOG_LINES'', ascii ''2'')])) = Exit 1"
proof -
  have "fst (main demo_argv (demo_world 1 Present [(ascii ''LOG_LINES'', ascii ''2'')]))
        = Exit (1 mod 256)"
    using wrapper_exit_code [of demo_argv "demo_world 1 Present [(ascii ''LOG_LINES'', ascii ''2'')]"
        "[(ascii ''LOG_LINES'', ascii ''2'')]" 1 demo_output 1]
    by (simp add: demo_argv_def task_environ_demo) (simp add: demo_world_def)
  moreover have "fst (notify_failure (ascii ''demo'') [(ascii ''LOG_LINES'', ascii ''2'')]
          (map rstrip_newline demo_output)
          (demo_world 1 Present [(ascii ''LOG_LINES'', ascii ''2'')])) = Some OSError"
    by (simp add: notify_failure_def get_log_lines_def demo_world_def py_int_2 Let_def)
  ultimately show ?thesis by simp
qed

text \<open>
  C4, as stated, fails. With a child that ends with the exit code 1: when
  \<open>/app/notify.py\<close> does not exist the notifier is not run; when \<open>LOG_LINES\<close> is no
  integer (\<open>abc\<close>) it is not run either; with \<open>LOG_LINES\<close> \<open>0\<close> the excerpt holds all three
  captured lines; and when the child's output does not decode, or the write of the log
  line before the notifier raises (the write number 7 of this run), the wrapper ends
  with that exception before it runs the notifier.
\<close>

theorem wrapper_notifier_runs_counterexample:
  "main demo_argv (demo_world 1 Absent []) = (Exit 1, [])
   \<and> main demo_argv (demo_world 1 Present [(ascii ''LOG_LINES'', ascii ''abc'')]) = (Exit 1, [])
   \<and> snd (main demo_argv (demo_world 1 Present [(ascii ''LOG_LINES'', ascii ''0'')])) ! 0 ! 5
       = ascii ''step 1\<newline>step 2\<newline>boom''
   \<and> main demo_argv ((demo_world 1 Present []) \<lparr>w_spawn := \<lambda>cmd e. Ran demo_output True 1\<rparr>)
       = (Uncaught UnicodeDecodeError, [])
   \<and> main demo_argv ((demo_world 1 Present []) \<lparr>w_stdout_raises := \<lambda>n. n = 7\<rparr>)
       = (Uncaught WriteError, [])"
proof -
  have t: "\<And>f. task_environ (ascii ''demo'') ((demo_world 1 Present []) \<lparr>w_spawn := f\<rparr>) = Inr ([], 1)"
    by (simp add: task_environ_def demo_world_def load_env_file_def setup_task_env_def)
  have u: "task_environ (ascii ''demo'') ((demo_world 1 Present []) \<lparr>w_stdout_raises := \<lambda>n. n = 7\<rparr>)
           = Inr ([], 1)"
    by (simp add: task_environ_def demo_world_def load_env_file_def setup_task_env_def)
  have a: "main demo_argv (demo_world 1 Absent []) = (Exit 1, [])"
    by (simp add: main_def demo_argv_def task_environ_demo_empty Let_def)
       (simp add: run_child_def demo_world_def echo_demo sys_exit_def)
  have b: "main demo_argv (demo_world 1 Present [(ascii ''LOG_LINES'', ascii ''abc'')]) = (Exit 1, [])"
    by (simp add: main_def demo_argv_def task_environ_demo Let_def)
       (simp add: run_child_def demo_world_def echo_demo sys_exit_def notify_failure_def
          get_log_lines_def py_int_abc)
  have c: "snd (main demo_argv (demo_world 1 Present [(ascii ''LOG_LINES'', ascii ''0'')])) ! 0 ! 5
       = ascii ''step 1\<newline>step 2\<newline>boom''"
    apply (simp add: main_def demo_argv_def task_environ_demo Let_def)
    apply (simp add: run_child_def demo_world_def echo_demo notify_failure_def get_log_lines_def
        py_int_0 last_slice_def Let_def)
    apply (simp add: ascii_def)
    done
  have d: "main demo_argv ((demo_world 1 Present []) \<lparr>w_spawn := \<lambda>cmd e. Ran demo_output True 1\<rparr>)
       = (Uncaught UnicodeDecodeError, [])"
    by (simp add: main_def demo_argv_def t Let_def)
       (simp add: run_child_def demo_world_def echo_demo)
  have e: "main demo_argv ((demo_world 1 Present []) \<lparr>w_stdout_raises := \<lambda>n. n = 7\<rparr>)
       = (Uncaught WriteError, [])"
    by (simp add: main_def demo_argv_def u Let_def)
       (simp add: run_child_def demo_world_def echo_demo)
  from a b c d e show ?thesis by simp
qed

text \<open>
  C4, amended. Once the child has run: with the return code 0 the notifier is not run,
  and neither is it when \<open>/app/notify.py\<close> does not exist or the check for it raises.
  With another return code, when the output has been read to the end, no write to
  standard output raises, \<open>/app/notify.py\<close> exists, and \<open>int\<close> reads \<open>LOG_LINES\<close> as an integer \<open>n \<ge> 1\<close> (15 when
  the variable is unset), the notifier is run exactly once; its title is the task name,
  a space and "execution failed", and its excerpt is "no output" for an empty output
  and else the last \<open>n\<close> captured lines, all of them when there are fewer, joined by
  newlines.
\<close>

theorem wrapper_notifier_runs:
  assumes "3 \<le> length argv"
      and "task_environ (argv ! 1) w = Inr (env, k)"
      and "w_spawn w ([ascii ''python3'', argv ! 2] @ drop 3 argv) env = Ran raw undecodable c"
  shows "(c = 0 \<longrightarrow> snd (main argv w) = [])
       \<and> (w_notify_path w \<noteq> Present \<longrightarrow> snd (main argv w) = [])
       \<and> (map_of env (ascii ''LOG_LINES'') = None \<longrightarrow>
            get_log_lines (w_max_str_digits w) env = Some 15)
       \<and> (c \<noteq> 0 \<and> \<not> undecodable \<and> (\<forall>m. k \<le> m \<longrightarrow> \<not> w_stdout_raises w m)
            \<and> w_notify_path w = Present \<and> get_log_lines (w_max_str_digits w) env = Some n \<and> 1 \<le> n \<longrightarrow>
            snd (main argv w) =
              [[ascii ''python3'', ascii ''/app/notify.py'',
                argv ! 1 @ ascii '' '' @ [0x6267, 0x884C, 0x5931, 0x8D25],
                [0x8BE6, 0x60C5, 0x89C1, 0x65E5, 0x5FD7],
                ascii ''--log-content'',
                (if raw = [] then [0x65E0, 0x8F93, 0x51FA]
                 else join [0xA] (drop (length raw - nat n) (map rstrip_newline raw))),
                ascii ''--log-lines'', str_int n]]
            \<and> length (drop (length raw - nat n) (map rstrip_newline raw)) \<le> nat n)"
proof -
  have m: "main argv w = run_child (argv ! 1) ([ascii ''python3'', argv ! 2] @ drop 3 argv) env k w"
    using assms(1,2) by (simp add: main_def Let_def)
  have a: "c = 0 \<longrightarrow> snd (main argv w) = []"
    using assms(3) by (auto simp add: m run_child_def split: sum.splits prod.splits)
  have b: "w_notify_path w \<noteq> Present \<longrightarrow> snd (main argv w) = []"
    using assms(3)
    by (auto simp add: m run_child_def split: sum.splits prod.splits probe.splits)
  have d: "map_of env (ascii ''LOG_LINES'') = None \<longrightarrow>
            get_log_lines (w_max_str_digits w) env = Some 15"
    by (simp add: get_log_lines_def)
  have e: "c \<noteq> 0 \<and> \<not> undecodable \<and> (\<forall>m. k \<le> m \<longrightarrow> \<not> w_stdout_raises w m)
            \<and> w_notify_path w = Present \<and> get_log_lines (w_max_str_digits w) env = Some n \<and> 1 \<le> n \<longrightarrow>
            snd (main argv w) =
              [[ascii ''python3'', ascii ''/app/notify.py'',
                argv ! 1 @ ascii '' '' @ [0x6267, 0x884C, 0x5931, 0x8D25],
                [0x8BE6, 0x60C5, 0x89C1, 0x65E5, 0x5FD7],
                ascii ''--log-content'',
                (if raw = [] then [0x65E0, 0x8F93, 0x51FA]
                 else join [0xA] (drop (length raw - nat n) (map rstrip_newline raw))),
                ascii ''--log-lines'', str_int n]]
            \<and> length (drop (length raw - nat n) (map rstrip_newline raw)) \<le> nat n"
  proof (intro impI, elim conjE)
    assume h: "c \<noteq> 0" "\<not> undecodable" "\<forall>m. k \<le> m \<longrightarrow> \<not> w_stdout_raises w m"
      "w_notify_path w = Present" "get_log_lines (w_max_str_digits w) env = Some n" "1 \<le> n"
    have ec: "echo_lines w raw (Suc (Suc k))
              = Inr (map rstrip_newline raw, Suc (Suc k) + length raw)"
      using h(3) by (intro echo_lines_ok) simp
    show "snd (main argv w) =
              [[ascii ''python3'', ascii ''/app/notify.py'',
                argv ! 1 @ ascii '' '' @ [0x6267, 0x884C, 0x5931, 0x8D25],
                [0x8BE6, 0x60C5, 0x89C1, 0x65E5, 0x5FD7],
                ascii ''--log-content'',
                (if raw = [] then [0x65E0, 0x8F93, 0x51FA]
                 else join [0xA] (drop (length raw - nat n) (map rstrip_newline raw))),
                ascii ''--log-lines'', str_int n]]
            \<and> length (drop (length raw - nat n) (map rstrip_newline raw)) \<le> nat n"
      using assms(3) h ec
      by (auto simp add: m run_child_def notify_failure_def last_slice_def Let_def)
  qed
  from a b d e show ?thesis by blast
qed

theorem wrapper_notifier_runs_witness:
  "snd (main demo_argv (demo_world 0 Present [])) = []
   \<and> snd (main demo_argv (demo_world 1 Absent [])) = []
   \<and> get_log_lines 4300 [] = Some 15
   \<and> get_log_lines 4300 [(ascii ''LOG_LINES'', ascii ''2'')] = Some 2
   \<and> snd (main demo_argv (demo_world 1 Present [(ascii ''LOG_LINES'', ascii ''2'')])) =
       [[ascii ''python3'', ascii ''/app/notify.py'',
         ascii ''demo '' @ [0x6267, 0x884C, 0x5931, 0x8D25],
         [0x8BE6, 0x60C5, 0x89C1, 0x65E5, 0x5FD7],
         ascii ''--log-content'', ascii ''step 2\<newline>boom'',
         ascii ''--log-lines'', ascii ''2'']]"
proof -
  have ok: "snd (main demo_argv (demo_world 0 Present [])) = []"
    using wrapper_notifier_runs [of demo_argv "demo_world 0 Present []" "[]" 1 demo_output False 0 15]
    by (simp add: demo_argv_def task_environ_demo_empty) (simp add: demo_world_def)
  have missing: "snd (main demo_argv (demo_world 1 Absent [])) = []"
    using wrapper_notifier_runs [of demo_argv "demo_world 1 Absent []" "[]" 1 demo_output False 1 15]
    by (simp add: demo_argv_def task_environ_demo_empty) (simp add: demo_world_def)
  have unset: "get_log_lines 4300 [] = Some 15"
    using wrapper_notifier_runs [of demo_argv "demo_world 0 Present []" "[]" 1 demo_output False 0 15]
    by (simp add: demo_argv_def task_environ_demo_empty) (simp add: demo_world_def)
  have two: "get_log_lines 4300 [(ascii ''LOG_LINES'', ascii ''2'')] = Some 2"
    by (simp add: get_log_lines_def py_int_2)
  have run: "snd (main demo_argv (demo_world 1 Present [(ascii ''LOG_LINES'', ascii ''2'')])) =
       [[ascii ''python3'', ascii ''/app/notify.py'',
         ascii ''demo '' @ [0x6267, 0x884C, 0x5931, 0x8D25],
         [0x8BE6, 0x60C5, 0x89C1, 0x65E5, 0x5FD7],
         ascii ''--log-content'', ascii ''step 2\<newline>boom'',
         ascii ''--log-lines'', ascii ''2'']]"
    using wrapper_notifier_runs [of demo_argv
        "demo_world 1 Present [(ascii ''LOG_LINES'', ascii ''2'')]"
        "[(ascii ''LOG_LINES'', ascii ''2'')]" 1 demo_output False 1 2] two
    apply (simp add: demo_argv_def task_environ_demo)
    apply (simp add: demo_world_def str_int_def str_nat_digit demo_output_lines)
    apply (simp add: demo_output_def ascii_def)
    done
  from ok missing unset two run show ?thesis by simp
qed

subsection \<open>The cron file\<close>

lemma cron_loop_append:
  "cron_loop ex (xs @ ys) =
     (fst (cron_loop ex xs) @ fst (cron_loop ex ys), snd (cron_loop ex xs) @ snd (cron_loop ex ys))"
  by (induction xs) simp_all

lemma cron_task_disabled:
  "t_enabled t = Some False \<Longrightarrow>
   cron_task ex t =
     ([], [(L_INF, [0x7981, 0x7528, 0x4EFB, 0x52A1] @ ascii '': ''
                   @ get_or (t_name t) [0x672A, 0x547D, 0x540D, 0x4EFB, 0x52A1])])"
  by (simp add: cron_task_def get_or_def)

lemma cron_task_no_script:
  "get_or (t_script t) [] = [] \<or> \<not> ex (get_or (t_script t) []) \<Longrightarrow> fst (cron_task ex t) = []"
  by (auto simp add: cron_task_def Let_def)

lemma cron_header_nonempty: "cron_header \<noteq> []"
  by (simp add: cron_header_def ascii_def)

lemma demo_exists_simps:
  "demo_exists (ascii ''x.py'')" "demo_exists (ascii ''/app/task_wrapper.py'')"
  "\<not> demo_exists (ascii ''y.py'')"
  by (simp_all add: demo_exists_def ascii_def)

lemma ascii_nonempty: "ascii ''x.py'' \<noteq> []" "ascii ''y.py'' \<noteq> []"
  by (simp_all add: ascii_def)

lemma cron_task_demo: "fst (cron_task demo_exists task_demo) = demo_entry"
  by (simp add: cron_task_def task_demo_def get_or_def demo_exists_simps ascii_nonempty
      demo_entry_def Let_def)
     (simp add: ascii_def)

lemma cron_task_off: "fst (cron_task demo_exists task_off) = []"
  by (simp add: cron_task_def task_off_def get_or_def)

lemma cron_task_gone: "fst (cron_task demo_exists task_gone) = []"
  by (simp add: cron_task_def task_gone_def get_or_def demo_exists_simps ascii_nonempty Let_def)

text \<open>
  C5. A task with \<open>enabled: false\<close>, wherever it stands in the task list, adds nothing
  to the cron file: the run appends the header, what the loop writes for the tasks
  before and after it, and the closing newline. For the task itself only the line
  "disabled task: name" is logged.
\<close>

theorem disabled_task_omitted:
  assumes "c_tasks cfg = Some (xs @ t # ys)" and "t_enabled t = Some False"
  shows "generate_cron config_path cron_file (Loaded cfg) exists old =
     (True,
      Some (get_or old [] @ cron_header @ fst (cron_loop exists (xs @ ys)) @ [0xA]),
      snd (cron_loop exists xs)
      @ [(L_INF, [0x7981, 0x7528, 0x4EFB, 0x52A1] @ ascii '': ''
                 @ get_or (t_name t) [0x672A, 0x547D, 0x540D, 0x4EFB, 0x52A1])]
      @ snd (cron_loop exists ys))"
  using assms
  by (simp add: generate_cron_def cron_text_def get_or_def cron_loop_append
      cron_task_disabled [unfolded get_or_def])

theorem disabled_task_omitted_witness:
  "t_enabled task_off = Some False
   \<and> fst (snd (generate_cron (ascii ''config.yml'') (ascii ''/tmp/crontab'')
                 (Loaded three_task_config) demo_exists None)) =
       Some (cron_header @ demo_entry @ [0xA])"
  using disabled_task_omitted [of three_task_config "[task_demo]" task_off "[task_gone]"
      "ascii ''config.yml''" "ascii ''/tmp/crontab''" demo_exists None]
  by (simp add: three_task_config_def cron_task_demo cron_task_gone get_or_def)
     (simp add: task_off_def)

text \<open>
  C6. A task whose script is missing, empty, or names a path that does not exist,
  wherever it stands in the task list, adds nothing to the cron file: the other tasks
  are written as they are without it, their log entries are kept around the one of the
  skipped task, and \<open>generate_cron\<close> returns \<open>True\<close>.
\<close>

theorem missing_script_skipped:
  assumes "c_tasks cfg = Some (xs @ t # ys)"
      and "get_or (t_script t) [] = [] \<or> \<not> exists (get_or (t_script t) [])"
  shows "fst (generate_cron config_path cron_file (Loaded cfg) exists old) = True
       \<and> fst (snd (generate_cron config_path cron_file (Loaded cfg) exists old)) =
           Some (get_or old [] @ cron_header @ fst (cron_loop exists (xs @ ys)) @ [0xA])
       \<and> snd (snd (generate_cron config_path cron_file (Loaded cfg) exists old)) =
           snd (cron_loop exists xs) @ snd (cron_task exists t) @ snd (cron_loop exists ys)"
  using assms cron_task_no_script [of t exists]
  by (simp add: generate_cron_def cron_text_def cron_loop_append get_or_def)

theorem missing_script_skipped_witness:
  "\<not> demo_exists (get_or (t_script task_gone) [])
   \<and> generate_cron (ascii ''config.yml'') (ascii ''/tmp/crontab'')
                 (Loaded three_task_config) demo_exists (Some (ascii ''# old''))
       = (True, Some (ascii ''# old'' @ cron_header @ demo_entry @ [0xA]),
          snd (cron_loop demo_exists [task_demo, task_off, task_gone]))"
  using missing_script_skipped [of three_task_config "[task_demo, task_off]" task_gone "[]"
      demo_exists "ascii ''config.yml''" "ascii ''/tmp/crontab''" "Some (ascii ''# old'')"]
  by (simp add: three_task_config_def cron_task_demo cron_task_off get_or_def prod_eq_iff)
     (simp add: task_gone_def demo_exists_simps)

lemma cron_loop_entries:
  "fst (cron_loop exists ts) =
     concat (map (\<lambda>t. ascii ''# '' @ [0x4EFB, 0x52A1] @ ascii '': ''
                       @ get_or (t_name t) [0x672A, 0x547D, 0x540D, 0x4EFB, 0x52A1] @ [0xA]
                       @ (if exists (ascii ''/app/task_wrapper.py'') then
                            get_or (t_schedule t) (ascii ''0 * * * *'')
                            @ ascii '' cd /app && . /app/.env 2>/dev/null; python3 /app/task_wrapper.py ''
                            @ [0x27] @ get_or (t_name t) [0x672A, 0x547D, 0x540D, 0x4EFB, 0x52A1]
                            @ [0x27] @ ascii '' '' @ [0x27] @ get_or (t_script t) [] @ [0x27]
                            @ ascii '' >> /proc/1/fd/1 2>&1'' @ [0xA]
                          else
                            get_or (t_schedule t) (ascii ''0 * * * *'')
                            @ ascii '' cd /app && . /app/.env 2>/dev/null; python3 ''
                            @ get_or (t_script t) [] @ ascii '' >> /proc/1/fd/1 2>&1'' @ [0xA])
                       @ [0xA])
                 (filter (\<lambda>t. get_or (t_enabled t) True \<and> get_or (t_script t) [] \<noteq> []
                               \<and> exists (get_or (t_script t) [])) ts))"
  by (induction ts) (simp_all add: cron_task_def Let_def)

text \<open>
  C10, as stated, fails: the run does not write an entry for every enabled task. For
  the configuration whose only task is enabled (no \<open>enabled\<close> key) and names a script
  that does not exist, the run appends the header and the closing newline and logs that
  the task is skipped.
\<close>

theorem cron_file_appended_counterexample:
  "get_or (t_enabled task_gone) True
   \<and> generate_cron (ascii ''config.yml'') (ascii ''/tmp/crontab'') (Loaded gone_config) demo_exists
        (Some (ascii ''# old''))
     = (True, Some (ascii ''# old'' @ cron_header @ [0xA]),
        [(L_WAR, [0x8DF3, 0x8FC7, 0x4EFB, 0x52A1] @ ascii '' gone: ''
                 @ [0x811A, 0x672C, 0x4E0D, 0x5B58, 0x5728] @ ascii '' y.py'')])"
  by (simp add: generate_cron_def cron_text_def gone_config_def get_or_def cron_task_def
      task_gone_def demo_exists_simps ascii_nonempty Let_def)
     (simp add: ascii_def)

text \<open>
  C10, amended. \<open>generate_cron\<close> appends: the cron file after a run is what it held
  before followed by the text of the run, so a second run on the same configuration and
  file system gives that text twice, which is not the file of the first run. The text
  of a run is the header and then, when there are tasks, one entry for each task that
  is enabled and whose script is configured and exists (the comment with the task's
  name, the cron line, an empty line), and a closing newline. \<open>generate_env\<close> replaces:
  its file does not depend on what was there before.
\<close>

theorem cron_file_appended:
  "fst (snd (generate_cron config_path cron_file (Loaded cfg) exists old)) =
     Some (get_or old [] @ fst (cron_text exists cfg))
   \<and> fst (snd (generate_cron config_path cron_file (Loaded cfg) exists
                 (fst (snd (generate_cron config_path cron_file (Loaded cfg) exists old))))) =
       Some (get_or old [] @ fst (cron_text exists cfg) @ fst (cron_text exists cfg))
   \<and> fst (snd (generate_cron config_path cron_file (Loaded cfg) exists
                 (fst (snd (generate_cron config_path cron_file (Loaded cfg) exists old)))))
       \<noteq> fst (snd (generate_cron config_path cron_file (Loaded cfg) exists old))
   \<and> fst (cron_text exists cfg) =
       ascii ''# '' @ [0x5B9A, 0x65F6, 0x4EFB, 0x52A1, 0x5B9A, 0x4E49, 0xA]
       @ (if get_or (c_tasks cfg) [] = [] then []
          else concat (map (\<lambda>t. ascii ''# '' @ [0x4EFB, 0x52A1] @ ascii '': ''
                       @ get_or (t_name t) [0x672A, 0x547D, 0x540D, 0x4EFB, 0x52A1] @ [0xA]
                       @ (if exists (ascii ''/app/task_wrapper.py'') then
                            get_or (t_schedule t) (ascii ''0 * * * *'')
                            @ ascii '' cd /app && . /app/.env 2>/dev/null; python3 /app/task_wrapper.py ''
                            @ [0x27] @ get_or (t_name t) [0x672A, 0x547D, 0x540D, 0x4EFB, 0x52A1]
                            @ [0x27] @ ascii '' '' @ [0x27] @ get_or (t_script t) [] @ [0x27]
                            @ ascii '' >> /proc/1/fd/1 2>&1'' @ [0xA]
                          else
                            get_or (t_schedule t) (ascii ''0 * * * *'')
                            @ ascii '' cd /app && . /app/.env 2>/dev/null; python3 ''
                            @ get_or (t_script t) [] @ ascii '' >> /proc/1/fd/1 2>&1'' @ [0xA])
                       @ [0xA])
                 (filter (\<lambda>t. get_or (t_enabled t) True \<and> get_or (t_script t) [] \<noteq> []
                               \<and> exists (get_or (t_script t) [])) (get_or (c_tasks cfg) [])))
               @ [0xA])
   \<and> fst (snd (generate_env config_path env_file (Loaded cfg) now old)) = Some (env_text cfg now)"
proof -
  have h: "cron_header \<noteq> []" by (rule cron_header_nonempty)
  have t: "fst (cron_text exists cfg) \<noteq> []"
    using h by (simp add: cron_text_def)
  have a: "fst (snd (generate_cron config_path cron_file (Loaded cfg) exists old)) =
     Some (get_or old [] @ fst (cron_text exists cfg))"
    by (simp add: generate_cron_def)
  have b: "fst (snd (generate_cron config_path cron_file (Loaded cfg) exists
                 (fst (snd (generate_cron config_path cron_file (Loaded cfg) exists old))))) =
       Some (get_or old [] @ fst (cron_text exists cfg) @ fst (cron_text exists cfg))"
    by (simp add: generate_cron_def get_or_def)
  have c: "fst (snd (generate_cron config_path cron_file (Loaded cfg) exists
                 (fst (snd (generate_cron config_path cron_file (Loaded cfg) exists old)))))
       \<noteq> fst (snd (generate_cron config_path cron_file (Loaded cfg) exists old))"
    using t by (simp add: b) (simp add: a)
  have d: "fst (cron_text exists cfg) =
       ascii ''# '' @ [0x5B9A, 0x65F6, 0x4EFB, 0x52A1, 0x5B9A, 0x4E49, 0xA]
       @ (if get_or (c_tasks cfg) [] = [] then []
          else fst (cron_loop exists (get_or (c_tasks cfg) [])) @ [0xA])"
    by (simp add: cron_text_def cron_header_def)
  have e: "fst (snd (generate_env config_path env_file (Loaded cfg) now old)) = Some (env_text cfg now)"
    by (simp add: generate_env_def)
  show ?thesis
    unfolding cron_loop_entries [symmetric]
    using a b c d e by blast
qed

theorem cron_file_appended_witness:
  "fst (snd (generate_cron (ascii ''config.yml'') (ascii ''/tmp/crontab'')
                 (Loaded three_task_config) demo_exists
                 (Some (ascii ''# old'' @ cron_header @ demo_entry @ [0xA])))) =
     Some (ascii ''# old'' @ cron_header @ demo_entry @ [0xA] @ cron_header @ demo_entry @ [0xA])"
  using cron_file_appended [of "ascii ''config.yml''" "ascii ''/tmp/crontab''" three_task_config
      demo_exists "Some (ascii ''# old'' @ cron_header @ demo_entry @ [0xA])"]
  by (simp add: three_task_config_def cron_task_demo cron_task_off cron_task_gone get_or_def
        cron_text_def)

subsection \<open>The env file\<close>

lemma pieces_nonempty: "pieces sep s \<noteq> []"
  by (induction s) (auto split: list.splits)



























text \<open>
  C7. The env file that \<open>generate_env\<close> writes for a configuration is a fixed first line
  and "generated at: ", then the time, then a newline and a rest that depends on the
  configuration alone: not on the time and not on what the file held before. Two runs
  on the same configuration differ in the characters of the time only, and are equal
  when the time is.
\<close>

theorem env_file_idempotent:
  "\<exists>rest. \<forall>now old.
     generate_env config_path env_file (Loaded cfg) now old =
       (True,
        Some (ascii ''# '' @ [0x81EA, 0x52A8, 0x751F, 0x6210, 0x7684, 0x73AF, 0x5883, 0x53D8,
                              0x91CF, 0x6587, 0x4EF6, 0xA]
              @ ascii ''# '' @ [0x751F, 0x6210, 0x65F6, 0x95F4] @ ascii '': '' @ now @ 0xA # rest),
        [(L_INF, [0x73AF, 0x5883, 0x53D8, 0x91CF, 0x6587, 0x4EF6, 0x5DF2, 0x751F, 0x6210]
                 @ ascii '': '' @ env_file)])"
proof -
  let ?rest =
    "ascii ''# '' @ [0x4E0D, 0x8981, 0x624B, 0x52A8, 0x7F16, 0x8F91, 0x6B64, 0x6587, 0x4EF6,
                     0xA, 0xA]
     @ (case c_global_env cfg of
          None \<Rightarrow> []
        | Some g \<Rightarrow>
            ascii ''# '' @ [0x5168, 0x5C40, 0x73AF, 0x5883, 0x53D8, 0x91CF, 0xA]
            @ concat (map (\<lambda>(key, val). export_line key val) g) @ [0xA])
     @ (if get_or (c_tasks cfg) [] \<noteq> [] then
          ascii ''# '' @ [0x4EFB, 0x52A1, 0x4E13, 0x5C5E, 0x73AF, 0x5883, 0x53D8, 0x91CF, 0xA]
          @ concat (map env_task (get_or (c_tasks cfg) []))
        else [])"
  have "\<forall>now old.
     generate_env config_path env_file (Loaded cfg) now old =
       (True,
        Some (ascii ''# '' @ [0x81EA, 0x52A8, 0x751F, 0x6210, 0x7684, 0x73AF, 0x5883, 0x53D8,
                              0x91CF, 0x6587, 0x4EF6, 0xA]
              @ ascii ''# '' @ [0x751F, 0x6210, 0x65F6, 0x95F4] @ ascii '': '' @ now @ 0xA # ?rest),
        [(L_INF, [0x73AF, 0x5883, 0x53D8, 0x91CF, 0x6587, 0x4EF6, 0x5DF2, 0x751F, 0x6210]
                 @ ascii '': '' @ env_file)])"
    by (simp add: generate_env_def env_text_def)
  then show ?thesis by (rule exI [of _ ?rest])
qed

theorem env_file_idempotent_witness:
  "map_option (drop 41)
     (fst (snd (generate_env (ascii ''config.yml'') (ascii ''/app/.env'') (Loaded roundtrip_config)
                  (ascii ''2026-01-01 00:00:00'') None)))
   = map_option (drop 41)
     (fst (snd (generate_env (ascii ''config.yml'') (ascii ''/app/.env'') (Loaded roundtrip_config)
                  (ascii ''2026-01-01 00:00:07'') (Some (ascii ''# stale'')))))
   \<and> fst (snd (generate_env (ascii ''config.yml'') (ascii ''/app/.env'') (Loaded roundtrip_config)
                  (ascii ''2026-01-01 00:00:00'') None)) \<noteq> None"
proof -
  obtain rest where r: "\<And>now old.
     fst (snd (generate_env (ascii ''config.yml'') (ascii ''/app/.env'') (Loaded roundtrip_config)
                 now old)) =
        Some (ascii ''# '' @ [0x81EA, 0x52A8, 0x751F, 0x6210, 0x7684, 0x73AF, 0x5883, 0x53D8,
                              0x91CF, 0x6587, 0x4EF6, 0xA]
              @ ascii ''# '' @ [0x751F, 0x6210, 0x65F6, 0x95F4] @ ascii '': '' @ now @ 0xA # rest)"
    using env_file_idempotent [of "ascii ''config.yml''" "ascii ''/app/.env''" roundtrip_config]
    by auto
  show ?thesis by (simp add: r) (simp add: ascii_def)
qed

end
